theory Spec2Isabelle
  imports Main "HOL-Library.Sublist"
begin

section \<open>The shared database client of \<^verbatim>\<open>src/db/postgres.ts\<close>\<close>

text \<open>
  The module builds one Prisma client, attaches a timing/logging middleware and a
  before-exit hook to it, keeps it in a global slot outside production, and closes it on
  SIGINT and SIGTERM. The wrapped client, the continuation of the middleware and the
  clock are outside the file: they appear below as parameters or as fields of the
  process state.
\<close>

subsection \<open>JavaScript values\<close>

text \<open>
  The values an operation can return and an exception can carry. Numbers are the integral
  ones and \<open>NaN\<close>; an array is the list of its elements, an object the list of its
  properties.
\<close>

datatype jsval =
    Undefined
  | Null
  | Bool bool
  | Num int
  | NaN
  | Str string
  | Arr "jsval list"
  | Obj "(string \<times> jsval) list"

text \<open>The \<^verbatim>\<open>typeof\<close> operator: \<^verbatim>\<open>null\<close> and arrays are of type \<^verbatim>\<open>"object"\<close>.\<close>

fun js_typeof :: "jsval \<Rightarrow> string" where
  "js_typeof Undefined = ''undefined''"
| "js_typeof Null = ''object''"
| "js_typeof (Bool b) = ''boolean''"
| "js_typeof (Num n) = ''number''"
| "js_typeof NaN = ''number''"
| "js_typeof (Str t) = ''string''"
| "js_typeof (Arr xs) = ''object''"
| "js_typeof (Obj ps) = ''object''"

text \<open>Conversion to a boolean, as a condition and the left operand of \<^verbatim>\<open>&&\<close> do it.\<close>

fun truthy :: "jsval \<Rightarrow> bool" where
  "truthy Undefined = False"
| "truthy Null = False"
| "truthy (Bool b) = b"
| "truthy (Num n) = (n \<noteq> 0)"
| "truthy NaN = False"
| "truthy (Str t) = (t \<noteq> [])"
| "truthy (Arr xs) = True"
| "truthy (Obj ps) = True"

text \<open>\<^verbatim>\<open>a && b\<close>: the left operand when it is falsy, the right one otherwise.\<close>

definition js_and :: "jsval \<Rightarrow> jsval \<Rightarrow> jsval" where
  "js_and a b = (if truthy a then b else a)"

text \<open>\<^verbatim>\<open>Array.isArray\<close>.\<close>

fun isArray :: "jsval \<Rightarrow> bool" where
  "isArray (Arr xs) = True"
| "isArray v = False"

text \<open>The \<^verbatim>\<open>length\<close> property, read by the middleware on arrays only.\<close>

fun js_length :: "jsval \<Rightarrow> nat" where
  "js_length (Arr xs) = length xs"
| "js_length v = 0"

text \<open>\<^verbatim>\<open>a ?? d\<close> on an optional string: \<open>None\<close> is \<^verbatim>\<open>undefined\<close>.\<close>

fun nullish :: "string option \<Rightarrow> string \<Rightarrow> string" where
  "nullish None d = d"
| "nullish (Some a) d = a"

subsection \<open>Numbers in template literals\<close>

text \<open>
  A template literal prints an integral number in decimal, with a minus sign when it is
  negative.
\<close>

definition digit :: "nat \<Rightarrow> char" where
  "digit d = ''0123456789'' ! d"

function show_nat :: "nat \<Rightarrow> string" where
  "show_nat n = (if n < 10 then [digit n] else show_nat (n div 10) @ [digit (n mod 10)])"
  by pat_completeness auto
termination
  by (relation "measure id") auto

declare show_nat.simps [simp del]

definition show_int :: "int \<Rightarrow> string" where
  "show_int i = (if i < 0 then ''-'' @ show_nat (nat (- i)) else show_nat (nat i))"

text \<open>Reading a decimal numeral back, to state what the digits printed mean.\<close>

definition read_nat :: "string \<Rightarrow> nat" where
  "read_nat cs = foldl (\<lambda>acc c. 10 * acc + (of_char c - 48)) 0 cs"

definition read_int :: "string \<Rightarrow> int" where
  "read_int cs =
     (case cs of
        [] \<Rightarrow> 0
      | c # ds \<Rightarrow> if c = CHR ''-'' then - int (read_nat ds) else int (read_nat cs))"

subsection \<open>The client and the process\<close>

text \<open>
  \<^verbatim>\<open>prismaLog\<close> and \<^verbatim>\<open>prismaOptions\<close> (lines 8 to 15).
\<close>

datatype PrismaLogLevel = query | info | warn | error

datatype errorFormat = minimal | pretty | colorless

record prisma_options =
  log :: "PrismaLogLevel list"
  errorFormat :: errorFormat

text \<open>
  A client is an object: \<open>cid\<close> is its identity, \<open>options\<close> what its constructor was
  given. The callbacks given to \<^verbatim>\<open>$use\<close> and \<^verbatim>\<open>$on\<close> are closures of
  \<^verbatim>\<open>createClient\<close>; the one variable they capture besides the client is \<^verbatim>\<open>isProd\<close>,
  kept in \<open>hooks_isProd\<close>.
\<close>

record client =
  cid :: nat
  options :: prisma_options
  hooks_isProd :: bool

datatype stream = Stdout | Stderr

text \<open>
  The process: its environment variables, the reading \<^verbatim>\<open>Date.now()\<close> gives, the calls
  made to \<^verbatim>\<open>console.log\<close> (\<open>Stdout\<close>) and \<^verbatim>\<open>console.error\<close> (\<open>Stderr\<close>) with their
  arguments, the global \<^verbatim>\<open>globalThis.__prisma__\<close>, the values assigned to it in order,
  the listeners registered with \<^verbatim>\<open>process.on\<close> (signal and the client their closure
  closes), and the identity the next object gets.
\<close>

record proc =
  env :: "(string \<times> string) list"
  now :: int
  console :: "(stream \<times> jsval list) list"
  slot :: "client option"
  slot_writes :: "client list"
  listeners :: "(string \<times> client) list"
  next_cid :: nat

text \<open>
  An asynchronous computation, awaited: it changes the process and either throws a value
  (\<open>Inl\<close>) or returns one (\<open>Inr\<close>).
\<close>

type_synonym 'a io = "proc \<Rightarrow> (jsval + 'a) \<times> proc"

definition console_log :: "jsval list \<Rightarrow> proc \<Rightarrow> proc" where
  "console_log args s = s\<lparr>console := console s @ [(Stdout, args)]\<rparr>"

definition console_error :: "jsval list \<Rightarrow> proc \<Rightarrow> proc" where
  "console_error args s = s\<lparr>console := console s @ [(Stderr, args)]\<rparr>"

text \<open>Line 5: \<^verbatim>\<open>process.env.NODE_ENV === "production"\<close>.\<close>

definition isProd :: "proc \<Rightarrow> bool" where
  "isProd s = (map_of (env s) ''NODE_ENV'' = Some ''production'')"

definition prismaLog :: "bool \<Rightarrow> PrismaLogLevel list" where
  "prismaLog isProd' = (if isProd' then [warn, error] else [info, warn, error])"

definition prismaOptions :: "bool \<Rightarrow> prisma_options" where
  "prismaOptions isProd' =
     \<lparr>log = prismaLog isProd', errorFormat = (if isProd' then minimal else pretty)\<rparr>"

subsection \<open>The middleware\<close>

text \<open>
  The descriptor of an operation: \<^verbatim>\<open>model\<close> and \<^verbatim>\<open>action\<close> are optional, \<open>rest\<close> holds
  the other properties.
\<close>

record params =
  model :: "string option"
  action :: "string option"
  rest :: "(string \<times> jsval) list"

text \<open>
  The callback given to \<^verbatim>\<open>client.$use\<close> (lines 29 to 55). \<open>isProd'\<close> is the captured
  flag, \<open>next\<close> the continuation; the clock is read on entry and once more when the
  continuation has settled.
\<close>

definition middleware :: "bool \<Rightarrow> params \<Rightarrow> (params \<Rightarrow> jsval io) \<Rightarrow> jsval io" where
  "middleware isProd' params next s =
     (let start = now s in
      case next params s of
        (Inr result, s1) \<Rightarrow>
          (let ms = now s1 - start in
           if \<not> isProd' then
             (let isObject = js_and result (Bool (js_typeof result = ''object''));
                  size = (if isArray result then '' items='' @ show_nat (js_length result)
                          else if truthy isObject then '' item=1''
                          else '''');
                  model = nullish (model params) ''$internal'';
                  action = nullish (action params) ''$op''
              in (Inr result,
                  console_log [Str (''[prisma] '' @ model @ ''.'' @ action @ '' (''
                                    @ show_int ms @ '' ms)'' @ size)] s1))
           else (Inr result, s1))
      | (Inl e, s1) \<Rightarrow>
          (let ms = now s1 - start;
               model = nullish (model params) ''$internal'';
               action = nullish (action params) ''$op''
           in (Inl e,
               console_error [Str (''[prisma] '' @ model @ ''.'' @ action @ '' FAILED after ''
                                   @ show_int ms @ '' ms'')] s1)))"

subsection \<open>Creating the client\<close>

text \<open>
  The callback given to \<^verbatim>\<open>client.$on("beforeExit", ...)\<close> (lines 57 to 60).
  \<open>disconnect\<close> is \<^verbatim>\<open>$disconnect\<close> of the wrapped client. The arrow of the message is
  the three bytes of its UTF-8 encoding.
\<close>

definition beforeExit :: "bool \<Rightarrow> (client \<Rightarrow> unit io) \<Rightarrow> client \<Rightarrow> unit io" where
  "beforeExit isProd' disconnect client s =
     (let s1 = (if \<not> isProd'
                then console_log [Str (''[prisma] beforeExit '' @ [CHR 0xE2, CHR 0x87, CHR 0x92]
                                       @ '' disconnect'')] s
                else s)
      in disconnect client s1)"

text \<open>
  \<^verbatim>\<open>createClient\<close> (lines 26 to 63): a new object, with the options of the mode and the
  two callbacks registered.
\<close>

definition createClient :: "bool \<Rightarrow> proc \<Rightarrow> client \<times> proc" where
  "createClient isProd' s =
     (\<lparr>cid = next_cid s, options = prismaOptions isProd', hooks_isProd = isProd'\<rparr>,
      s\<lparr>next_cid := Suc (next_cid s)\<rparr>)"

text \<open>The middleware and the before-exit hook a client carries.\<close>

definition client_middleware :: "client \<Rightarrow> params \<Rightarrow> (params \<Rightarrow> jsval io) \<Rightarrow> jsval io" where
  "client_middleware c = middleware (hooks_isProd c)"

definition client_beforeExit :: "(client \<Rightarrow> unit io) \<Rightarrow> client \<Rightarrow> unit io" where
  "client_beforeExit disconnect c = beforeExit (hooks_isProd c) disconnect c"

subsection \<open>Evaluating the module\<close>

text \<open>What an evaluation of the module binds: \<^verbatim>\<open>isProd\<close> and the exported \<^verbatim>\<open>prisma\<close>.\<close>

record bindings =
  b_isProd :: bool
  prisma :: client

text \<open>
  The top level of the file: line 5, lines 65 to 68 and the two \<^verbatim>\<open>process.on\<close> calls
  of lines 79 and 80.
\<close>

definition postgres_module :: "proc \<Rightarrow> bindings \<times> proc" where
  "postgres_module s =
     (let isProd' = isProd s;
          (prismaBase, s1) = (case slot s of Some c \<Rightarrow> (c, s) | None \<Rightarrow> createClient isProd' s);
          s2 = (if \<not> isProd'
                then s1\<lparr>slot := Some prismaBase, slot_writes := slot_writes s1 @ [prismaBase]\<rparr>
                else s1);
          s3 = s2\<lparr>listeners := listeners s2 @ [(''SIGINT'', prismaBase), (''SIGTERM'', prismaBase)]\<rparr>
      in (\<lparr>b_isProd = isProd', prisma = prismaBase\<rparr>, s3))"

text \<open>The client an evaluation of the module exports (line 68).\<close>

definition exported :: "proc \<Rightarrow> client" where
  "exported s = prisma (fst (postgres_module s))"

text \<open>The module evaluated \<open>n\<close> times in the same process, as a reload does.\<close>

fun reload :: "nat \<Rightarrow> proc \<Rightarrow> bindings list \<times> proc" where
  "reload 0 s = ([], s)"
| "reload (Suc n) s =
     (let (b, s1) = postgres_module s;
          (bs, s2) = reload n s1
      in (b # bs, s2))"

subsection \<open>Shutdown\<close>

text \<open>\<^verbatim>\<open>gracefulExit\<close> (lines 71 to 78), on the exported client.\<close>

definition gracefulExit :: "(client \<Rightarrow> unit io) \<Rightarrow> client \<Rightarrow> string \<Rightarrow> unit io" where
  "gracefulExit disconnect prisma' signal s =
     (let s1 = console_log [Str (''[prisma] Received '' @ signal
                                 @ ''. Closing DB connections...'')] s
      in case disconnect prisma' s1 of
           (Inr u, s2) \<Rightarrow> (Inr (), s2)
         | (Inl err, s2) \<Rightarrow>
             (Inr (), console_error [Str ''[prisma] Error during disconnect:'', err] s2))"

subsection \<open>Sample inputs\<close>

definition proc0 :: proc where
  "proc0 = \<lparr>env = [], now = 1000, console = [], slot = None, slot_writes = [],
            listeners = [], next_cid = 0\<rparr>"

definition proc_prod :: proc where
  "proc_prod = proc0\<lparr>env := [(''NODE_ENV'', ''production'')]\<rparr>"

definition findMany :: params where
  "findMany = \<lparr>model = Some ''User'', action = Some ''findMany'', rest = []\<rparr>"

definition raw_query :: params where
  "raw_query = \<lparr>model = None, action = None, rest = []\<rparr>"

text \<open>A continuation that fails after 7 ms, and one that returns \<open>v\<close> after 12 ms.\<close>

definition next_fail :: "params \<Rightarrow> jsval io" where
  "next_fail p s = (Inl (Str ''P2002''), s\<lparr>now := now s + 7\<rparr>)"

definition next_return :: "jsval \<Rightarrow> params \<Rightarrow> jsval io" where
  "next_return v p s = (Inr v, s\<lparr>now := now s + 12\<rparr>)"

text \<open>A client whose connection cannot be closed.\<close>

definition disconnect_fail :: "client \<Rightarrow> unit io" where
  "disconnect_fail c s = (Inl (Str ''ECONNRESET''), s)"

definition client0 :: client where
  "client0 = fst (createClient False proc0)"

section \<open>Properties\<close>

subsection \<open>Decimal output\<close>

lemma digit_value: "d < 10 \<Longrightarrow> of_char (digit d) - 48 = d"
proof -
  assume "d < 10"
  then have "d = 0 \<or> d = 1 \<or> d = 2 \<or> d = 3 \<or> d = 4
      \<or> d = 5 \<or> d = 6 \<or> d = 7 \<or> d = 8 \<or> d = 9"
    by arith
  then show ?thesis
    by (elim disjE) (simp_all add: digit_def)
qed

lemma read_show_nat: "read_nat (show_nat n) = n"
proof (induction n rule: show_nat.induct)
  case (1 n)
  show ?case
  proof (cases "n < 10")
    case True
    then show ?thesis
      by (simp add: show_nat.simps [of n] read_nat_def digit_value)
  next
    case False
    with 1 have "read_nat (show_nat (n div 10)) = n div 10" by simp
    with False show ?thesis
      by (simp add: show_nat.simps [of n] read_nat_def digit_value)
  qed
qed

lemma show_nat_inj: "show_nat m = show_nat n \<Longrightarrow> m = n"
  by (metis read_show_nat)

subsection \<open>The middleware, case by case\<close>

text \<open>
  What the middleware does once the continuation has settled, for each way it can settle
  and each mode. The properties below are read off these equations.
\<close>

lemma middleware_Inl:
  "next params s = (Inl e, s1) \<Longrightarrow>
   middleware isProd' params next s =
     (Inl e,
      console_error [Str (''[prisma] '' @ nullish (model params) ''$internal'' @ ''.''
                          @ nullish (action params) ''$op'' @ '' FAILED after ''
                          @ show_int (now s1 - now s) @ '' ms'')] s1)"
  by (simp add: middleware_def)

lemma middleware_Inr_prod:
  "next params s = (Inr r, s1) \<Longrightarrow> middleware True params next s = (Inr r, s1)"
  by (simp add: middleware_def)

lemma middleware_Inr_dev:
  "next params s = (Inr r, s1) \<Longrightarrow>
   middleware False params next s =
     (Inr r,
      console_log [Str (''[prisma] '' @ nullish (model params) ''$internal'' @ ''.''
                        @ nullish (action params) ''$op'' @ '' (''
                        @ show_int (now s1 - now s) @ '' ms)''
                        @ (if isArray r then '' items='' @ show_nat (js_length r)
                           else if truthy (js_and r (Bool (js_typeof r = ''object'')))
                           then '' item=1'' else []))] s1)"
  by (simp add: middleware_def Let_def)

lemma console_log_neq: "console_log args s \<noteq> s"
proof
  assume "console_log args s = s"
  then have "length (console (console_log args s)) = length (console s)" by simp
  then show False by (simp add: console_log_def)
qed

lemma console_log_inj: "console_log [Str a] s = console_log [Str b] s \<Longrightarrow> a = b"
proof -
  assume "console_log [Str a] s = console_log [Str b] s"
  then have "console (console_log [Str a] s) = console (console_log [Str b] s)" by simp
  then show "a = b" by (simp add: console_log_def)
qed

lemma object_test:
  "truthy (js_and r (Bool (js_typeof r = ''object''))) = (truthy r \<and> js_typeof r = ''object'')"
  by (simp add: js_and_def)

subsection \<open>Failures, production mode, and the frame\<close>

lemma digit_not_minus: "d < 10 \<Longrightarrow> digit d \<noteq> CHR ''-''"
proof -
  assume "d < 10"
  then have "d = 0 \<or> d = 1 \<or> d = 2 \<or> d = 3 \<or> d = 4
      \<or> d = 5 \<or> d = 6 \<or> d = 7 \<or> d = 8 \<or> d = 9"
    by arith
  then show ?thesis
    by (elim disjE) (simp_all add: digit_def)
qed

lemma show_nat_head: "\<exists>c cs. show_nat n = c # cs \<and> c \<noteq> CHR ''-''"
proof (induction n rule: show_nat.induct)
  case (1 n)
  show ?case
  proof (cases "n < 10")
    case True
    then show ?thesis
      by (simp add: show_nat.simps [of n] digit_not_minus)
  next
    case False
    with 1 obtain c cs where "show_nat (n div 10) = c # cs" and "c \<noteq> CHR ''-''"
      by auto
    with False show ?thesis
      by (simp add: show_nat.simps [of n])
  qed
qed

lemma read_show_int: "read_int (show_int i) = i"
proof (cases "i < 0")
  case True
  then show ?thesis
    by (simp add: show_int_def read_int_def read_show_nat)
next
  case False
  obtain c cs where h: "show_nat (nat i) = c # cs" and m: "c \<noteq> CHR ''-''"
    using show_nat_head [of "nat i"] by auto
  have "read_nat (c # cs) = nat i"
    using read_show_nat [of "nat i"] by (simp add: h)
  with False h m show ?thesis
    by (simp add: show_int_def read_int_def)
qed

text \<open>
  C1. An operation that fails, in production or not: one call to \<^verbatim>\<open>console.error\<close>, with
  a line that holds the model name of the descriptor (\<^verbatim>\<open>$internal\<close> when it has none),
  its action name (\<^verbatim>\<open>$op\<close> when it has none) and the elapsed milliseconds in decimal
  (read back, the digits give the difference of the two clock readings); the value the
  continuation threw is thrown again as it is.
\<close>

theorem failed_operation_logged_and_rethrown:
  "next params s = (Inl e, s1) \<Longrightarrow>
   middleware isProd' params next s =
     (Inl e,
      s1\<lparr>console := console s1 @
          [(Stderr, [Str (''[prisma] ''
                          @ (case model params of None \<Rightarrow> ''$internal'' | Some m \<Rightarrow> m)
                          @ ''.''
                          @ (case action params of None \<Rightarrow> ''$op'' | Some a \<Rightarrow> a)
                          @ '' FAILED after ''
                          @ show_int (now s1 - now s) @ '' ms'')])]\<rparr>) \<and>
   read_int (show_int (now s1 - now s)) = now s1 - now s"
proof -
  assume n: "next params s = (Inl e, s1)"
  have names: "nullish x d = (case x of None \<Rightarrow> d | Some v \<Rightarrow> v)" for x d
    by (cases x) simp_all
  from n show ?thesis
    by (simp add: middleware_Inl console_error_def names read_show_int)
qed

theorem failed_operation_logged_and_rethrown_witness:
  "next_fail findMany proc_prod = (Inl (Str ''P2002''), proc_prod\<lparr>now := 1007\<rparr>) \<and>
   middleware True findMany next_fail proc_prod =
     (Inl (Str ''P2002''),
      proc_prod\<lparr>now := 1007,
            console := [(Stderr, [Str ''[prisma] User.findMany FAILED after 7 ms''])]\<rparr>) \<and>
   next_fail raw_query proc0 = (Inl (Str ''P2002''), proc0\<lparr>now := 1007\<rparr>) \<and>
   middleware False raw_query next_fail proc0 =
     (Inl (Str ''P2002''),
      proc0\<lparr>now := 1007,
            console := [(Stderr, [Str ''[prisma] $internal.$op FAILED after 7 ms''])]\<rparr>) \<and>
   read_int ''7'' = 7"
proof -
  have h1: "next_fail findMany proc_prod = (Inl (Str ''P2002''), proc_prod\<lparr>now := 1007\<rparr>)"
    by (simp add: next_fail_def proc_prod_def proc0_def)
  have h2: "next_fail raw_query proc0 = (Inl (Str ''P2002''), proc0\<lparr>now := 1007\<rparr>)"
    by (simp add: next_fail_def proc0_def)
  show ?thesis
    using h1 h2
      failed_operation_logged_and_rethrown [of next_fail findMany proc_prod "Str ''P2002''"
        "proc_prod\<lparr>now := 1007\<rparr>" True]
      failed_operation_logged_and_rethrown [of next_fail raw_query proc0 "Str ''P2002''"
        "proc0\<lparr>now := 1007\<rparr>" False]
    by (simp add: proc_prod_def proc0_def findMany_def raw_query_def show_int_def
        show_nat.simps digit_def)
qed

text \<open>
  C6. In production a successful operation leaves the process as the continuation left it,
  console included; a failed one adds its \<^verbatim>\<open>console.error\<close> line.
\<close>

theorem production_logs_failures_only:
  "(next params s = (Inr r, s1) \<longrightarrow> middleware True params next s = (Inr r, s1)) \<and>
   (next' params' s' = (Inl e, s1') \<longrightarrow>
    middleware True params' next' s' =
      (Inl e,
       s1'\<lparr>console := console s1' @
           [(Stderr, [Str (''[prisma] '' @ nullish (model params') ''$internal'' @ ''.''
                           @ nullish (action params') ''$op'' @ '' FAILED after ''
                           @ show_int (now s1' - now s') @ '' ms'')])]\<rparr>))"
  by (simp add: middleware_Inl middleware_Inr_prod console_error_def)

theorem production_logs_failures_only_witness:
  "next_return (Num 42) findMany proc_prod = (Inr (Num 42), proc_prod\<lparr>now := 1012\<rparr>) \<and>
   middleware True findMany (next_return (Num 42)) proc_prod =
     (Inr (Num 42), proc_prod\<lparr>now := 1012\<rparr>) \<and>
   console (proc_prod\<lparr>now := 1012\<rparr>) = [] \<and>
   next_fail findMany proc_prod = (Inl (Str ''P2002''), proc_prod\<lparr>now := 1007\<rparr>) \<and>
   middleware True findMany next_fail proc_prod =
     (Inl (Str ''P2002''),
      proc_prod\<lparr>now := 1007,
            console := [(Stderr, [Str ''[prisma] User.findMany FAILED after 7 ms''])]\<rparr>)"
proof -
  have h1: "next_return (Num 42) findMany proc_prod = (Inr (Num 42), proc_prod\<lparr>now := 1012\<rparr>)"
    by (simp add: next_return_def proc_prod_def proc0_def)
  have h2: "next_fail findMany proc_prod = (Inl (Str ''P2002''), proc_prod\<lparr>now := 1007\<rparr>)"
    by (simp add: next_fail_def proc_prod_def proc0_def)
  show ?thesis
    using h1 h2
      production_logs_failures_only [of "next_return (Num 42)" findMany proc_prod "Num 42"
        "proc_prod\<lparr>now := 1012\<rparr>" next_fail findMany proc_prod "Str ''P2002''"
        "proc_prod\<lparr>now := 1007\<rparr>"]
    by (simp add: proc_prod_def proc0_def findMany_def show_int_def show_nat.simps digit_def)
qed

text \<open>
  C7. Whatever the continuation and the mode: the middleware gives the continuation the
  descriptor and the process it was given, settles the way the continuation settled, with
  the same value, and leaves the process as the continuation left it but for lines added
  at the end of the console.
\<close>

theorem middleware_only_logs:
  "fst (middleware isProd' params next s) = fst (next params s) \<and>
   prefix (console (snd (next params s))) (console (snd (middleware isProd' params next s))) \<and>
   (snd (middleware isProd' params next s))\<lparr>console := c\<rparr> = (snd (next params s))\<lparr>console := c\<rparr>"
proof -
  obtain r s1 where n: "next params s = (r, s1)"
    by (cases "next params s")
  show ?thesis
  proof (cases r)
    case (Inl e)
    with n show ?thesis
      by (simp add: middleware_Inl console_error_def)
  next
    case (Inr v)
    with n show ?thesis
      by (cases isProd') (simp_all add: middleware_Inr_prod middleware_Inr_dev console_log_def)
  qed
qed

subsection \<open>The size annotation\<close>

text \<open>
  C4. Outside production, an operation that returns an array of \<open>N\<close> elements logs its
  line with the annotation \<^verbatim>\<open>items=N\<close>, \<open>N\<close> in decimal (read back, the digits give
  \<open>N\<close>).
\<close>

theorem array_result_logs_items:
  "next params s = (Inr (Arr xs), s1) \<Longrightarrow>
   middleware False params next s =
     (Inr (Arr xs),
      s1\<lparr>console := console s1 @
          [(Stdout, [Str (''[prisma] '' @ nullish (model params) ''$internal'' @ ''.''
                          @ nullish (action params) ''$op'' @ '' (''
                          @ show_int (now s1 - now s) @ '' ms)''
                          @ '' items='' @ show_nat (length xs))])]\<rparr>) \<and>
   read_nat (show_nat (length xs)) = length xs"
  by (simp add: middleware_Inr_dev console_log_def read_show_nat)

theorem array_result_logs_items_witness:
  "next_return (Arr [Obj [], Obj [], Obj []]) findMany proc0 =
     (Inr (Arr [Obj [], Obj [], Obj []]), proc0\<lparr>now := 1012\<rparr>) \<and>
   middleware False findMany (next_return (Arr [Obj [], Obj [], Obj []])) proc0 =
     (Inr (Arr [Obj [], Obj [], Obj []]),
      proc0\<lparr>now := 1012,
            console := [(Stdout, [Str ''[prisma] User.findMany (12 ms) items=3''])]\<rparr>)"
proof -
  have h: "next_return (Arr [Obj [], Obj [], Obj []]) findMany proc0 =
      (Inr (Arr [Obj [], Obj [], Obj []]), proc0\<lparr>now := 1012\<rparr>)"
    by (simp add: next_return_def proc0_def)
  show ?thesis
    using h
      array_result_logs_items [of "next_return (Arr [Obj [], Obj [], Obj []])" findMany proc0
        "[Obj [], Obj [], Obj []]" "proc0\<lparr>now := 1012\<rparr>"]
    by (simp add: proc0_def findMany_def show_int_def show_nat.simps digit_def)
qed

text \<open>
  C5. Outside production, an operation that returns an object that is not an array logs
  its line with \<^verbatim>\<open>item=1\<close>; one that returns \<^verbatim>\<open>null\<close> or \<^verbatim>\<open>undefined\<close> logs its
  line with nothing after the elapsed time.
\<close>

theorem object_result_logs_item_1_and_null_nothing:
  "(next params s = (Inr (Obj ps), s1) \<longrightarrow>
    middleware False params next s =
      (Inr (Obj ps),
       s1\<lparr>console := console s1 @
           [(Stdout, [Str (''[prisma] '' @ nullish (model params) ''$internal'' @ ''.''
                           @ nullish (action params) ''$op'' @ '' (''
                           @ show_int (now s1 - now s) @ '' ms)'' @ '' item=1'')])]\<rparr>)) \<and>
   (next' params' s' = (Inr r', s1') \<and> (r' = Null \<or> r' = Undefined) \<longrightarrow>
    middleware False params' next' s' =
      (Inr r',
       s1'\<lparr>console := console s1' @
           [(Stdout, [Str (''[prisma] '' @ nullish (model params') ''$internal'' @ ''.''
                           @ nullish (action params') ''$op'' @ '' (''
                           @ show_int (now s1' - now s') @ '' ms)'')])]\<rparr>))"
proof (intro conjI impI)
  assume "next params s = (Inr (Obj ps), s1)"
  then show "middleware False params next s =
      (Inr (Obj ps),
       s1\<lparr>console := console s1 @
           [(Stdout, [Str (''[prisma] '' @ nullish (model params) ''$internal'' @ ''.''
                           @ nullish (action params) ''$op'' @ '' (''
                           @ show_int (now s1 - now s) @ '' ms)'' @ '' item=1'')])]\<rparr>)"
    by (simp add: middleware_Inr_dev console_log_def js_and_def)
next
  assume "next' params' s' = (Inr r', s1') \<and> (r' = Null \<or> r' = Undefined)"
  then have n: "next' params' s' = (Inr r', s1')" and r: "r' = Null \<or> r' = Undefined"
    by simp_all
  from r have "\<not> isArray r'" and "\<not> truthy (js_and r' (Bool (js_typeof r' = ''object'')))"
    by (auto simp: js_and_def)
  with n show "middleware False params' next' s' =
      (Inr r',
       s1'\<lparr>console := console s1' @
           [(Stdout, [Str (''[prisma] '' @ nullish (model params') ''$internal'' @ ''.''
                           @ nullish (action params') ''$op'' @ '' (''
                           @ show_int (now s1' - now s') @ '' ms)'')])]\<rparr>)"
    by (simp add: middleware_Inr_dev console_log_def)
qed

theorem object_result_logs_item_1_and_null_nothing_witness:
  "next_return (Obj [(''id'', Num 1)]) findMany proc0 =
     (Inr (Obj [(''id'', Num 1)]), proc0\<lparr>now := 1012\<rparr>) \<and>
   middleware False findMany (next_return (Obj [(''id'', Num 1)])) proc0 =
     (Inr (Obj [(''id'', Num 1)]),
      proc0\<lparr>now := 1012,
            console := [(Stdout, [Str ''[prisma] User.findMany (12 ms) item=1''])]\<rparr>) \<and>
   next_return Null raw_query proc0 = (Inr Null, proc0\<lparr>now := 1012\<rparr>) \<and>
   middleware False raw_query (next_return Null) proc0 =
     (Inr Null,
      proc0\<lparr>now := 1012,
            console := [(Stdout, [Str ''[prisma] $internal.$op (12 ms)''])]\<rparr>)"
proof -
  have h1: "next_return (Obj [(''id'', Num 1)]) findMany proc0 =
      (Inr (Obj [(''id'', Num 1)]), proc0\<lparr>now := 1012\<rparr>)"
    by (simp add: next_return_def proc0_def)
  have h2: "next_return Null raw_query proc0 = (Inr Null, proc0\<lparr>now := 1012\<rparr>)"
    by (simp add: next_return_def proc0_def)
  show ?thesis
    using h1 h2
      object_result_logs_item_1_and_null_nothing
        [of "next_return (Obj [(''id'', Num 1)])" findMany proc0 "[(''id'', Num 1)]"
          "proc0\<lparr>now := 1012\<rparr>" "next_return Null" raw_query proc0 Null
          "proc0\<lparr>now := 1012\<rparr>"]
    by (simp add: proc0_def findMany_def raw_query_def show_int_def show_nat.simps digit_def)
qed

text \<open>
  C10. Outside production, an operation that returns a value whose \<^verbatim>\<open>typeof\<close> is not
  \<^verbatim>\<open>"object"\<close> (a number, a boolean, a string) logs its line with nothing after the
  elapsed time; the line ends in \<^verbatim>\<open>item=1\<close> exactly when the result is not an array,
  is truthy and has \<^verbatim>\<open>typeof\<close> \<^verbatim>\<open>"object"\<close>.
\<close>

theorem non_object_result_logs_no_size:
  "next params s = (Inr r, s1) \<Longrightarrow>
   (js_typeof r \<noteq> ''object'' \<longrightarrow>
    middleware False params next s =
      (Inr r,
       s1\<lparr>console := console s1 @
           [(Stdout, [Str (''[prisma] '' @ nullish (model params) ''$internal'' @ ''.''
                           @ nullish (action params) ''$op'' @ '' (''
                           @ show_int (now s1 - now s) @ '' ms)'')])]\<rparr>)) \<and>
   ((middleware False params next s =
      (Inr r,
       s1\<lparr>console := console s1 @
           [(Stdout, [Str (''[prisma] '' @ nullish (model params) ''$internal'' @ ''.''
                           @ nullish (action params) ''$op'' @ '' (''
                           @ show_int (now s1 - now s) @ '' ms)'' @ '' item=1'')])]\<rparr>))
    = (\<not> isArray r \<and> truthy r \<and> js_typeof r = ''object''))"
proof -
  assume n: "next params s = (Inr r, s1)"
  have eq: "s1\<lparr>console := console s1 @ [(Stdout, [Str a])]\<rparr> =
      s1\<lparr>console := console s1 @ [(Stdout, [Str b])]\<rparr> \<longleftrightarrow> a = b" for a b
    using console_log_inj [of a s1 b] by (auto simp: console_log_def)
  have no_array: "isArray r \<Longrightarrow> js_typeof r = ''object''"
    by (cases r) simp_all
  have m: "middleware False params next s =
      (Inr r,
       s1\<lparr>console := console s1 @
           [(Stdout, [Str (''[prisma] '' @ nullish (model params) ''$internal'' @ ''.''
                           @ nullish (action params) ''$op'' @ '' (''
                           @ show_int (now s1 - now s) @ '' ms)''
                           @ (if isArray r then '' items='' @ show_nat (js_length r)
                              else if truthy r \<and> js_typeof r = ''object''
                              then '' item=1'' else []))])]\<rparr>)"
    using n by (simp add: middleware_Inr_dev console_log_def object_test)
  show ?thesis
    unfolding m using no_array by (simp add: eq)
qed

theorem non_object_result_logs_no_size_witness:
  "next_return (Num 42) findMany proc0 = (Inr (Num 42), proc0\<lparr>now := 1012\<rparr>) \<and>
   js_typeof (Num 42) \<noteq> ''object'' \<and>
   middleware False findMany (next_return (Num 42)) proc0 =
     (Inr (Num 42),
      proc0\<lparr>now := 1012,
            console := [(Stdout, [Str ''[prisma] User.findMany (12 ms)''])]\<rparr>)"
proof -
  have h: "next_return (Num 42) findMany proc0 = (Inr (Num 42), proc0\<lparr>now := 1012\<rparr>)"
    by (simp add: next_return_def proc0_def)
  show ?thesis
    using h
      non_object_result_logs_no_size [of "next_return (Num 42)" findMany proc0 "Num 42"
        "proc0\<lparr>now := 1012\<rparr>"]
    by (simp add: proc0_def findMany_def show_int_def show_nat.simps digit_def)
qed

subsection \<open>Mode and options\<close>

text \<open>
  C9. The client the factory builds has the options of the mode: in production the log
  levels \<^verbatim>\<open>warn\<close> and \<^verbatim>\<open>error\<close> and the error format \<^verbatim>\<open>minimal\<close>, otherwise the
  levels \<^verbatim>\<open>info\<close>, \<^verbatim>\<open>warn\<close> and \<^verbatim>\<open>error\<close> and the format \<^verbatim>\<open>pretty\<close>.
\<close>

theorem factory_options_by_mode:
  "options (fst (createClient (isProd s) s)) =
     (if isProd s then \<lparr>log = [warn, error], errorFormat = minimal\<rparr>
      else \<lparr>log = [info, warn, error], errorFormat = pretty\<rparr>)"
  by (simp add: createClient_def prismaOptions_def prismaLog_def)

theorem factory_options_by_mode_witness:
  "options (fst (createClient (isProd proc_prod) proc_prod)) =
     \<lparr>log = [warn, error], errorFormat = minimal\<rparr> \<and>
   options (fst (createClient (isProd proc0) proc0)) =
     \<lparr>log = [info, warn, error], errorFormat = pretty\<rparr>"
  using factory_options_by_mode [of proc_prod] factory_options_by_mode [of proc0]
  by (simp add: isProd_def proc_prod_def proc0_def)

subsection \<open>Shutdown\<close>

text \<open>
  \<^verbatim>\<open>gracefulExit\<close> catches what \<^verbatim>\<open>$disconnect\<close> throws: it never throws, alone or run
  twice in a row, whatever the client does.
\<close>

lemma gracefulExit_returns: "fst (gracefulExit disconnect c signal s) = Inr ()"
  by (simp add: gracefulExit_def Let_def split: prod.splits sum.splits)

lemma gracefulExit_twice_returns:
  "fst (gracefulExit disconnect c signal' (snd (gracefulExit disconnect c signal s))) = Inr ()"
  by (rule gracefulExit_returns)

lemma gracefulExit_logs_error:
  "disconnect c (console_log [Str (''[prisma] Received '' @ signal
       @ ''. Closing DB connections...'')] s) = (Inl err, s2) \<Longrightarrow>
   gracefulExit disconnect c signal s =
     (Inr (), console_error [Str ''[prisma] Error during disconnect:'', err] s2)"
  by (simp add: gracefulExit_def Let_def)

text \<open>
  The before-exit hook has no handler around \<^verbatim>\<open>$disconnect\<close>: it settles the way
  \<^verbatim>\<open>$disconnect\<close> does.
\<close>

lemma beforeExit_outcome:
  "beforeExit isProd' disconnect c s =
     disconnect c (if isProd' then s
                   else console_log [Str (''[prisma] beforeExit ''
                          @ [CHR 0xE2, CHR 0x87, CHR 0x92] @ '' disconnect'')] s)"
  by (simp add: beforeExit_def Let_def)

text \<open>
  C2. On a client whose \<^verbatim>\<open>$disconnect\<close> throws, the before-exit hook throws the same
  value and writes nothing to \<^verbatim>\<open>console.error\<close>, in either mode, where
  \<^verbatim>\<open>gracefulExit\<close> on the same client logs the error and returns.
\<close>

theorem beforeExit_hook_rethrows_disconnect_error:
  "client_beforeExit disconnect_fail client0 proc0 =
     (Inl (Str ''ECONNRESET''),
      proc0\<lparr>console := [(Stdout, [Str (''[prisma] beforeExit ''
                          @ [CHR 0xE2, CHR 0x87, CHR 0x92] @ '' disconnect'')])]\<rparr>) \<and>
   beforeExit True disconnect_fail client0 proc_prod = (Inl (Str ''ECONNRESET''), proc_prod) \<and>
   gracefulExit disconnect_fail client0 ''SIGTERM'' proc0 =
     (Inr (),
      proc0\<lparr>console := [(Stdout, [Str ''[prisma] Received SIGTERM. Closing DB connections...'']),
                        (Stderr, [Str ''[prisma] Error during disconnect:'',
                                  Str ''ECONNRESET''])]\<rparr>)"
  by (simp add: client_beforeExit_def beforeExit_def gracefulExit_def disconnect_fail_def
      client0_def createClient_def console_log_def console_error_def proc0_def proc_prod_def)

subsection \<open>The global slot\<close>

lemma postgres_module_env: "env (snd (postgres_module s)) = env s"
  by (simp add: postgres_module_def createClient_def Let_def split: option.splits)

lemma postgres_module_isProd: "isProd (snd (postgres_module s)) = isProd s"
  by (simp add: isProd_def postgres_module_env)

lemma postgres_module_slot:
  "\<not> isProd s \<Longrightarrow> slot (snd (postgres_module s)) = Some (exported s)"
  by (simp add: exported_def postgres_module_def createClient_def Let_def split: option.splits)

lemma postgres_module_slot_writes:
  "\<not> isProd s \<Longrightarrow>
   slot_writes (snd (postgres_module s)) = slot_writes s @ [exported s]"
  by (simp add: exported_def postgres_module_def createClient_def Let_def split: option.splits)

lemma exported_slot: "slot s = Some c \<Longrightarrow> exported s = c"
  by (simp add: exported_def postgres_module_def Let_def)

lemma exported_again: "\<not> isProd s \<Longrightarrow> exported (snd (postgres_module s)) = exported s"
  by (simp add: exported_slot postgres_module_slot)

lemma reload_nonprod:
  "\<not> isProd s \<Longrightarrow>
   map prisma (fst (reload n s)) = replicate n (exported s) \<and>
   slot_writes (snd (reload n s)) = slot_writes s @ replicate n (exported s) \<and>
   slot (snd (reload n s)) = (if n = 0 then slot s else Some (exported s))"
proof (induction n arbitrary: s)
  case 0
  then show ?case by simp
next
  case (Suc n)
  obtain b s1 where m: "postgres_module s = (b, s1)"
    by (cases "postgres_module s")
  from Suc.prems m have np: "\<not> isProd s1"
    using postgres_module_isProd [of s] by simp
  from Suc.prems m have ex: "exported s1 = exported s"
    using exported_again [of s] by simp
  from Suc.prems m have sl: "slot s1 = Some (exported s)"
    using postgres_module_slot [of s] by simp
  from Suc.prems m have sw: "slot_writes s1 = slot_writes s @ [exported s]"
    using postgres_module_slot_writes [of s] by simp
  from m have pb: "prisma b = exported s"
    by (simp add: exported_def)
  obtain bs s2 where rr: "reload n s1 = (bs, s2)"
    by (cases "reload n s1")
  from Suc.IH [OF np] rr
  have ih: "map prisma bs = replicate n (exported s)"
    "slot_writes s2 = slot_writes s @ exported s # replicate n (exported s)"
    "slot s2 = Some (exported s)"
    by (simp_all add: ex sl sw)
  from m rr have "reload (Suc n) s = (b # bs, s2)"
    by simp
  with ih pb show ?case
    by simp
qed

text \<open>
  C3, as the claim has it, fails: outside production two evaluations of the module in one
  process assign the slot twice.
\<close>

theorem slot_written_at_every_evaluation:
  "\<not> isProd proc0 \<and> slot_writes proc0 = [] \<and>
   \<not> length (slot_writes (snd (reload 2 proc0))) \<le> 1"
  by (simp add: numeral_2_eq_2 postgres_module_def createClient_def isProd_def proc0_def Let_def)

text \<open>
  C3, amended. Outside production every evaluation of the module in the same process
  exports the identical client, the one the first evaluation exports, and from the first
  evaluation on the slot holds that client. The slot is assigned once at each evaluation,
  every time with that same client.
\<close>

theorem nonprod_reload_exports_one_client:
  "\<not> isProd s \<Longrightarrow> reload n s = (bs, s') \<Longrightarrow>
   length bs = n \<and>
   (\<forall>b \<in> set bs. prisma b = exported s) \<and>
   (0 < n \<longrightarrow> slot s' = Some (exported s)) \<and>
   slot_writes s' = slot_writes s @ replicate n (exported s)"
proof -
  assume np: "\<not> isProd s" and r: "reload n s = (bs, s')"
  from reload_nonprod [OF np, of n] r
  have p: "map prisma bs = replicate n (exported s)"
    and w: "slot_writes s' = slot_writes s @ replicate n (exported s)"
    and sl: "slot s' = (if n = 0 then slot s else Some (exported s))"
    by simp_all
  from p have len: "length bs = n"
    by (metis length_map length_replicate)
  from p have "\<forall>b \<in> set bs. prisma b = exported s"
    by (metis (no_types, lifting) imageI in_set_replicate set_map)
  with len w sl show ?thesis by simp
qed

theorem nonprod_reload_exports_one_client_witness:
  "\<not> isProd proc0 \<and>
   reload 2 proc0 =
     ([\<lparr>b_isProd = False, prisma = client0\<rparr>, \<lparr>b_isProd = False, prisma = client0\<rparr>],
      proc0\<lparr>slot := Some client0, slot_writes := [client0, client0],
            listeners := [(''SIGINT'', client0), (''SIGTERM'', client0),
                          (''SIGINT'', client0), (''SIGTERM'', client0)],
            next_cid := 1\<rparr>) \<and>
   exported proc0 = client0 \<and>
   prisma \<lparr>b_isProd = False, prisma = client0\<rparr> = exported proc0"
proof -
  have np: "\<not> isProd proc0"
    by (simp add: isProd_def proc0_def)
  have r: "reload 2 proc0 =
     ([\<lparr>b_isProd = False, prisma = client0\<rparr>, \<lparr>b_isProd = False, prisma = client0\<rparr>],
      proc0\<lparr>slot := Some client0, slot_writes := [client0, client0],
            listeners := [(''SIGINT'', client0), (''SIGTERM'', client0),
                          (''SIGINT'', client0), (''SIGTERM'', client0)],
            next_cid := 1\<rparr>)"
    by (simp add: numeral_2_eq_2 postgres_module_def createClient_def isProd_def proc0_def
        client0_def Let_def)
  have e: "exported proc0 = client0"
    by (simp add: exported_def postgres_module_def createClient_def isProd_def proc0_def
        client0_def Let_def)
  show ?thesis
    using np r e nonprod_reload_exports_one_client [OF np r]
    by simp
qed

subsection \<open>The mode across evaluations\<close>

lemma postgres_module_flag: "b_isProd (fst (postgres_module s)) = isProd s"
  by (simp add: postgres_module_def Let_def split: prod.splits)

lemma exported_hooks:
  "hooks_isProd (exported s) = (case slot s of None \<Rightarrow> isProd s | Some c \<Rightarrow> hooks_isProd c)"
  by (simp add: exported_def postgres_module_def createClient_def Let_def split: option.splits)

lemma reload_flags: "map b_isProd (fst (reload n s)) = replicate n (isProd s)"
proof (induction n arbitrary: s)
  case 0
  then show ?case by simp
next
  case (Suc n)
  obtain b s1 where m: "postgres_module s = (b, s1)"
    by (cases "postgres_module s")
  obtain bs s2 where rr: "reload n s1 = (bs, s2)"
    by (cases "reload n s1")
  from m have b: "b_isProd b = isProd s"
    using postgres_module_flag [of s] by simp
  from m have "isProd s1 = isProd s"
    using postgres_module_isProd [of s] by simp
  with Suc.IH [of s1] rr have "map b_isProd bs = replicate n (isProd s)"
    by simp
  with m rr b show ?case
    by simp
qed

lemma middleware_success_silent:
  "next params s = (Inr r, s1) \<Longrightarrow>
   (middleware isProd' params next s = (Inr r, s1)) = isProd'"
  by (cases isProd') (simp_all add: middleware_Inr_prod middleware_Inr_dev console_log_neq)

text \<open>
  C8, as the claim has it, fails: the variable is read again at each evaluation of the
  module. In a process that starts with \<^verbatim>\<open>NODE_ENV\<close> unset and sets it to
  \<^verbatim>\<open>production\<close> before the module is evaluated a second time, the first evaluation
  binds the flag to false and the second one to true, while the exported client, made by
  the first evaluation, keeps the first value in its callbacks.
\<close>

theorem mode_read_again_on_reload:
  "\<not> b_isProd (fst (postgres_module proc0)) \<and>
   b_isProd (fst (postgres_module
     ((snd (postgres_module proc0))\<lparr>env := [(''NODE_ENV'', ''production'')]\<rparr>))) \<and>
   \<not> hooks_isProd (prisma (fst (postgres_module
     ((snd (postgres_module proc0))\<lparr>env := [(''NODE_ENV'', ''production'')]\<rparr>))))"
  by (simp add: postgres_module_def createClient_def isProd_def proc0_def Let_def)

text \<open>
  C8, amended. The mode is production exactly when \<^verbatim>\<open>NODE_ENV\<close> is \<^verbatim>\<open>production\<close>: a
  missing variable or any other value gives the other mode. The flag is read at each
  evaluation of the module, from the environment as it is then, so evaluations of one
  process between which the variable does not change bind the same value. A binding is
  never changed afterwards: the callbacks of the exported client keep the value read by the
  evaluation that created the client, and that value, not the environment at the time of
  the call, decides whether its middleware logs a successful operation.
\<close>

theorem mode_read_at_each_evaluation:
  "(isProd s0 \<longleftrightarrow> map_of (env s0) ''NODE_ENV'' = Some ''production'') \<and>
   (map_of (env s0) ''NODE_ENV'' = None \<longrightarrow> \<not> isProd s0) \<and>
   (map_of (env s0) ''NODE_ENV'' = Some v \<and> v \<noteq> ''production'' \<longrightarrow> \<not> isProd s0) \<and>
   b_isProd (fst (postgres_module s0)) = isProd s0 \<and>
   (\<forall>b \<in> set (fst (reload n s0)). b_isProd b = isProd s0) \<and>
   hooks_isProd (exported s0) =
     (case slot s0 of None \<Rightarrow> isProd s0 | Some c \<Rightarrow> hooks_isProd c) \<and>
   (next params s = (Inr r, s1) \<longrightarrow>
    (client_middleware (exported s0) params next s = (Inr r, s1))
    = hooks_isProd (exported s0))"
proof -
  have "set (map b_isProd (fst (reload n s0))) \<subseteq> {isProd s0}"
    by (auto simp: reload_flags simp del: set_replicate)
  then have all: "\<forall>b \<in> set (fst (reload n s0)). b_isProd b = isProd s0"
    by auto
  have run: "next params s = (Inr r, s1) \<longrightarrow>
      (client_middleware (exported s0) params next s = (Inr r, s1))
      = hooks_isProd (exported s0)"
    by (simp add: client_middleware_def middleware_success_silent)
  have mode: "isProd s0 \<longleftrightarrow> map_of (env s0) ''NODE_ENV'' = Some ''production''"
    by (simp add: isProd_def)
  from mode have none: "map_of (env s0) ''NODE_ENV'' = None \<longrightarrow> \<not> isProd s0"
    by simp
  from mode have other:
    "map_of (env s0) ''NODE_ENV'' = Some v \<and> v \<noteq> ''production'' \<longrightarrow> \<not> isProd s0"
    by simp
  show ?thesis
    using mode none other postgres_module_flag [of s0] all exported_hooks [of s0] run
    by blast
qed

theorem mode_read_at_each_evaluation_witness:
  "map_of (env proc0) ''NODE_ENV'' = None \<and> \<not> isProd proc0 \<and>
   map_of (env (proc0\<lparr>env := [(''NODE_ENV'', ''test'')]\<rparr>)) ''NODE_ENV'' = Some ''test'' \<and>
   ''test'' \<noteq> ''production'' \<and> \<not> isProd (proc0\<lparr>env := [(''NODE_ENV'', ''test'')]\<rparr>) \<and>
   isProd proc_prod \<and>
   map b_isProd (fst (reload 2 proc0)) = [False, False] \<and>
   \<not> hooks_isProd (exported proc0) \<and>
   next_return (Num 42) findMany proc_prod = (Inr (Num 42), proc_prod\<lparr>now := 1012\<rparr>) \<and>
   client_middleware (exported proc0) findMany (next_return (Num 42)) proc_prod
     \<noteq> (Inr (Num 42), proc_prod\<lparr>now := 1012\<rparr>)"
proof -
  have h: "next_return (Num 42) findMany proc_prod = (Inr (Num 42), proc_prod\<lparr>now := 1012\<rparr>)"
    by (simp add: next_return_def proc_prod_def proc0_def)
  have e: "map_of (env proc_prod) ''NODE_ENV'' = Some ''production''"
    by (simp add: proc_prod_def proc0_def)
  have r: "map b_isProd (fst (reload 2 proc0)) = [False, False]"
    by (simp add: numeral_2_eq_2 postgres_module_def createClient_def isProd_def proc0_def
        Let_def)
  have s: "slot proc0 = None"
    by (simp add: proc0_def)
  show ?thesis
    using h e r s
      mode_read_at_each_evaluation [of proc0 "''x''" 2 "next_return (Num 42)" findMany
        proc_prod "Num 42" "proc_prod\<lparr>now := 1012\<rparr>"]
      mode_read_at_each_evaluation [of "proc0\<lparr>env := [(''NODE_ENV'', ''test'')]\<rparr>" "''test''"]
      mode_read_at_each_evaluation [of proc_prod]
    by (simp add: proc0_def)
qed

end
